theory Spec2Isabelle
  imports Main "HOL-Library.Word"
begin

section \<open>JavaScript values\<close>

text \<open>
  A JavaScript string is a sequence of UTF-16 code units. String literals of the source
  are ASCII and are written through \<open>ascii\<close>; property names and URL paths, which are
  always literals of the source, stay HOL strings.
\<close>

type_synonym jsstring = "16 word list"

definition ascii :: "string \<Rightarrow> jsstring" where
  "ascii s = map (\<lambda>c. of_nat (of_char c)) s"

text \<open>
  Values that travel through the client layer: request bodies, response bodies, rejection
  values. An object literal \<open>{a: x, b: y}\<close> is the association list of its properties in
  the order written; the property names of one object are distinct.
\<close>

datatype js =
    JUndefined
  | JNull
  | JBool bool
  | JNum int
  | JStr jsstring
  | JArr "js list"
  | JObj "(string \<times> js) list"
  | JFormData "(string \<times> js) list"

text \<open>Property read with optional chaining (\<open>v?.k\<close>): anything without the property gives undefined.\<close>

fun get_prop :: "string \<Rightarrow> js \<Rightarrow> js" where
  "get_prop k (JObj kvs) = (case map_of kvs k of Some v \<Rightarrow> v | None \<Rightarrow> JUndefined)"
| "get_prop k _ = JUndefined"

fun nullish :: "js \<Rightarrow> bool" where
  "nullish JUndefined = True"
| "nullish JNull = True"
| "nullish _ = False"

text \<open>Truthiness, as \<open>||\<close>, \<open>!\<close> and \<open>if\<close> see it.\<close>

fun truthy :: "js \<Rightarrow> bool" where
  "truthy JUndefined = False"
| "truthy JNull = False"
| "truthy (JBool b) = b"
| "truthy (JNum n) = (n \<noteq> 0)"
| "truthy (JStr s) = (s \<noteq> [])"
| "truthy _ = True"

definition js_or :: "js \<Rightarrow> js \<Rightarrow> js" where
  "js_or a b = (if truthy a then a else b)"

text \<open>A parameter with a default value takes the default exactly when the argument is undefined.\<close>

definition default_param :: "js \<Rightarrow> js \<Rightarrow> js" where
  "default_param arg dflt = (if arg = JUndefined then dflt else arg)"

text \<open>
  \<open>String.prototype.trim\<close> strips the WhiteSpace and LineTerminator code points of
  ECMAScript from both ends; all of them are single code units.
\<close>

definition js_whitespace :: "16 word \<Rightarrow> bool" where
  "js_whitespace c = (c \<in> set [0x0009, 0x000A, 0x000B, 0x000C, 0x000D, 0x0020, 0x00A0, 0x1680,
     0x2000, 0x2001, 0x2002, 0x2003, 0x2004, 0x2005, 0x2006, 0x2007, 0x2008, 0x2009, 0x200A,
     0x2028, 0x2029, 0x202F, 0x205F, 0x3000, 0xFEFF])"

definition trim :: "jsstring \<Rightarrow> jsstring" where
  "trim s = rev (dropWhile js_whitespace (rev (dropWhile js_whitespace s)))"

text \<open>The guard \<open>!s.trim()\<close>: the trimmed string is the empty string, the only falsy string.\<close>

definition blank :: "jsstring \<Rightarrow> bool" where
  "blank s = (trim s = [])"

section \<open>The HTTP client wrapper (services/api.js)\<close>

datatype http_method = GET | POST

text \<open>An axios configuration: the fields this layer sets. An absent field is \<open>None\<close>.\<close>

record config =
  baseURL :: "jsstring option"
  timeout :: "nat option"
  headers :: "(string \<times> string) list"

text \<open>What a domain function hands to \<open>api.get\<close> or \<open>api.post\<close>: path, body, per-request config.\<close>

record call =
  http_method :: http_method
  url :: string
  data :: js
  call_config :: "config option"

text \<open>
  \<open>process.env.REACT_APP_API_URL || 'http://localhost:8000'\<close>: the environment variable is a
  parameter, undefined (\<open>None\<close>) or a string.
\<close>

definition API_BASE_URL :: "jsstring option \<Rightarrow> jsstring" where
  "API_BASE_URL env =
     (case env of None \<Rightarrow> ascii ''http://localhost:8000''
      | Some u \<Rightarrow> if u = [] then ascii ''http://localhost:8000'' else u)"

definition api :: "jsstring option \<Rightarrow> config" where
  "api env = \<lparr> baseURL = Some (API_BASE_URL env), timeout = Some 30000,
               headers = [(''Content-Type'', ''application/json'')] \<rparr>"

text \<open>
  axios merges the per-request config over the instance defaults: a scalar of the request
  wins when present, headers are merged name by name.
\<close>

definition merge_headers :: "(string \<times> string) list \<Rightarrow> (string \<times> string) list \<Rightarrow> (string \<times> string) list" where
  "merge_headers dflt req = req @ filter (\<lambda>(k, v). map_of req k = None) dflt"

definition mergeConfig :: "config \<Rightarrow> config option \<Rightarrow> config" where
  "mergeConfig dflt req =
     (case req of None \<Rightarrow> dflt
      | Some r \<Rightarrow> \<lparr> baseURL = (case baseURL r of None \<Rightarrow> baseURL dflt | Some b \<Rightarrow> Some b),
                    timeout = (case timeout r of None \<Rightarrow> timeout dflt | Some t \<Rightarrow> Some t),
                    headers = merge_headers (headers dflt) (headers r) \<rparr>)"

text \<open>The request that leaves the client: the call with its effective configuration.\<close>

record wire_request =
  wire_method :: http_method
  wire_url :: string
  wire_data :: js
  wire_config :: config

definition dispatch :: "config \<Rightarrow> call \<Rightarrow> wire_request" where
  "dispatch inst c = \<lparr> wire_method = http_method c, wire_url = url c, wire_data = data c,
                       wire_config = mergeConfig inst (call_config c) \<rparr>"

definition api_post :: "string \<Rightarrow> js \<Rightarrow> config option \<Rightarrow> call" where
  "api_post path body cfg = \<lparr> http_method = POST, url = path, data = body, call_config = cfg \<rparr>"

definition api_get :: "string \<Rightarrow> call" where
  "api_get path = \<lparr> http_method = GET, url = path, data = JUndefined, call_config = None \<rparr>"

section \<open>Domain API modules (services/api.js)\<close>

text \<open>
  Each function takes its positional parameters as values; a parameter the caller leaves
  out is \<open>JUndefined\<close>. A \<open>post\<close> without a body sends undefined.
\<close>

definition pdfAPI_uploadPDF :: "js \<Rightarrow> call" where
  "pdfAPI_uploadPDF file =
     api_post ''/api/pdf/upload'' (JFormData [(''file'', file)])
       (Some \<lparr> baseURL = None, timeout = None,
               headers = [(''Content-Type'', ''multipart/form-data'')] \<rparr>)"

definition pdfAPI_downloadPDF :: "js \<Rightarrow> call" where
  "pdfAPI_downloadPDF u = api_post ''/api/pdf/download'' (JObj [(''url'', u)]) None"

definition ragAPI_query :: "js \<Rightarrow> js \<Rightarrow> call" where
  "ragAPI_query question searchType =
     api_post ''/api/rag/query''
       (JObj [(''question'', question),
              (''search_type'', default_param searchType (JStr (ascii ''hybrid'')))]) None"

definition ragAPI_stepbackQuery :: "js \<Rightarrow> call" where
  "ragAPI_stepbackQuery question = api_post ''/api/rag/stepback'' (JObj [(''question'', question)]) None"

definition text2cypherAPI_query :: "js \<Rightarrow> js \<Rightarrow> js \<Rightarrow> call" where
  "text2cypherAPI_query question terminology examples =
     api_post ''/api/text2cypher/query''
       (JObj [(''question'', question),
              (''terminology'', default_param terminology (JStr [])),
              (''examples'', default_param examples (JStr []))]) None"

definition text2cypherAPI_getSchema :: call where
  "text2cypherAPI_getSchema = api_get ''/api/text2cypher/schema''"

definition text2cypherAPI_loadMoviesDataset :: call where
  "text2cypherAPI_loadMoviesDataset = api_post ''/api/text2cypher/load-movies'' JUndefined None"

definition agenticRAGAPI_query :: "js \<Rightarrow> call" where
  "agenticRAGAPI_query question = api_post ''/api/agentic-rag/query'' (JObj [(''question'', question)]) None"

definition agenticRAGAPI_getTools :: call where
  "agenticRAGAPI_getTools = api_get ''/api/agentic-rag/tools''"

definition entityAPI_extract :: "js \<Rightarrow> js \<Rightarrow> call" where
  "entityAPI_extract text entityTypes =
     api_post ''/api/entities/extract''
       (JObj [(''text'', text),
              (''entity_types'', default_param entityTypes
                 (JArr [JStr (ascii ''PERSON''), JStr (ascii ''ORGANIZATION''),
                        JStr (ascii ''LOCATION''), JStr (ascii ''EVENT'')]))]) None"

definition entityAPI_getGraph :: call where
  "entityAPI_getGraph = api_get ''/api/entities/graph''"

definition contractAPI_extract :: "js \<Rightarrow> call" where
  "contractAPI_extract contractText =
     api_post ''/api/contracts/extract'' (JObj [(''contract_text'', contractText)]) None"

definition contractAPI_list :: call where
  "contractAPI_list = api_get ''/api/contracts/list''"

definition graphRAGAPI_globalQuery :: "js \<Rightarrow> call" where
  "graphRAGAPI_globalQuery question = api_post ''/api/graph-rag/global'' (JObj [(''question'', question)]) None"

definition graphRAGAPI_localQuery :: "js \<Rightarrow> call" where
  "graphRAGAPI_localQuery question = api_post ''/api/graph-rag/local'' (JObj [(''question'', question)]) None"

definition graphRAGAPI_calculateCommunities :: call where
  "graphRAGAPI_calculateCommunities = api_post ''/api/graph-rag/communities'' JUndefined None"

definition statsAPI_getStats :: call where
  "statsAPI_getStats = api_get ''/api/stats''"

definition statsAPI_getHealth :: call where
  "statsAPI_getHealth = api_get ''/health''"

definition knowledgeGraphAPI_extract :: "js \<Rightarrow> call" where
  "knowledgeGraphAPI_extract document =
     api_post ''/api/knowledge-graph/extract'' (JObj [(''document'', document)]) None"

definition knowledgeGraphAPI_import :: "js \<Rightarrow> call" where
  "knowledgeGraphAPI_import document =
     api_post ''/api/knowledge-graph/import'' (JObj [(''document'', document)]) None"

definition knowledgeGraphAPI_getSampleContract :: call where
  "knowledgeGraphAPI_getSampleContract = api_get ''/api/knowledge-graph/sample-contract''"

definition knowledgeGraphAPI_getGraphData :: call where
  "knowledgeGraphAPI_getGraphData = api_get ''/api/knowledge-graph/data''"

definition knowledgeGraphAPI_query :: "js \<Rightarrow> call" where
  "knowledgeGraphAPI_query question =
     api_post ''/api/knowledge-graph/query'' (JObj [(''question'', question)]) None"

definition knowledgeGraphAPI_createConstraints :: call where
  "knowledgeGraphAPI_createConstraints = api_post ''/api/knowledge-graph/constraints'' JUndefined None"

definition knowledgeGraphAPI_getStatistics :: call where
  "knowledgeGraphAPI_getStatistics = api_get ''/api/knowledge-graph/statistics''"

definition knowledgeGraphAPI_clear :: call where
  "knowledgeGraphAPI_clear = api_post ''/api/knowledge-graph/clear'' JUndefined None"

definition databaseAPI_reset :: call where
  "databaseAPI_reset = api_post ''/api/database/reset'' JUndefined None"

text \<open>
  The exported surface as one table: every function of every module, applied to an
  argument list the way a JavaScript call binds it (missing arguments are undefined,
  extra ones are ignored).
\<close>

datatype api_op =
    PdfUploadPDF | PdfDownloadPDF
  | RagQuery | RagStepbackQuery
  | T2cQuery | T2cGetSchema | T2cLoadMoviesDataset
  | AgenticQuery | AgenticGetTools
  | EntityExtract | EntityGetGraph
  | ContractExtract | ContractList
  | GraphGlobalQuery | GraphLocalQuery | GraphCalculateCommunities
  | StatsGetStats | StatsGetHealth
  | KgExtract | KgImport | KgGetSampleContract | KgGetGraphData | KgQuery
  | KgCreateConstraints | KgGetStatistics | KgClear
  | DbReset

fun arg :: "js list \<Rightarrow> nat \<Rightarrow> js" where
  "arg [] n = JUndefined"
| "arg (a # as) 0 = a"
| "arg (a # as) (Suc n) = arg as n"

fun invoke :: "api_op \<Rightarrow> js list \<Rightarrow> call" where
  "invoke PdfUploadPDF as = pdfAPI_uploadPDF (arg as 0)"
| "invoke PdfDownloadPDF as = pdfAPI_downloadPDF (arg as 0)"
| "invoke RagQuery as = ragAPI_query (arg as 0) (arg as 1)"
| "invoke RagStepbackQuery as = ragAPI_stepbackQuery (arg as 0)"
| "invoke T2cQuery as = text2cypherAPI_query (arg as 0) (arg as 1) (arg as 2)"
| "invoke T2cGetSchema as = text2cypherAPI_getSchema"
| "invoke T2cLoadMoviesDataset as = text2cypherAPI_loadMoviesDataset"
| "invoke AgenticQuery as = agenticRAGAPI_query (arg as 0)"
| "invoke AgenticGetTools as = agenticRAGAPI_getTools"
| "invoke EntityExtract as = entityAPI_extract (arg as 0) (arg as 1)"
| "invoke EntityGetGraph as = entityAPI_getGraph"
| "invoke ContractExtract as = contractAPI_extract (arg as 0)"
| "invoke ContractList as = contractAPI_list"
| "invoke GraphGlobalQuery as = graphRAGAPI_globalQuery (arg as 0)"
| "invoke GraphLocalQuery as = graphRAGAPI_localQuery (arg as 0)"
| "invoke GraphCalculateCommunities as = graphRAGAPI_calculateCommunities"
| "invoke StatsGetStats as = statsAPI_getStats"
| "invoke StatsGetHealth as = statsAPI_getHealth"
| "invoke KgExtract as = knowledgeGraphAPI_extract (arg as 0)"
| "invoke KgImport as = knowledgeGraphAPI_import (arg as 0)"
| "invoke KgGetSampleContract as = knowledgeGraphAPI_getSampleContract"
| "invoke KgGetGraphData as = knowledgeGraphAPI_getGraphData"
| "invoke KgQuery as = knowledgeGraphAPI_query (arg as 0)"
| "invoke KgCreateConstraints as = knowledgeGraphAPI_createConstraints"
| "invoke KgGetStatistics as = knowledgeGraphAPI_getStatistics"
| "invoke KgClear as = knowledgeGraphAPI_clear"
| "invoke DbReset as = databaseAPI_reset"

subsection \<open>The endpoint table of the specification\<close>

text \<open>
  The table as the specification prints it, row by row: the methods a row allows and the
  paths it lists. The rows \<open>/api/graph-rag/global, /local\<close>, \<open>/api/stats, /health\<close> and
  \<open>/api/knowledge-graph/*\<close> (with its eight listed suffixes, under \<open>POST/GET\<close>) are
  written out.
\<close>

definition endpoint_table :: "(http_method list \<times> string list) list" where
  "endpoint_table =
    [([POST], [''/api/pdf/upload'']),
     ([POST], [''/api/pdf/download'']),
     ([POST], [''/api/rag/query'']),
     ([POST], [''/api/rag/stepback'']),
     ([POST], [''/api/text2cypher/query'']),
     ([GET], [''/api/text2cypher/schema'']),
     ([POST], [''/api/text2cypher/load-movies'']),
     ([POST], [''/api/agentic-rag/query'']),
     ([GET], [''/api/agentic-rag/tools'']),
     ([POST], [''/api/entities/extract'']),
     ([GET], [''/api/entities/graph'']),
     ([POST], [''/api/contracts/extract'']),
     ([GET], [''/api/contracts/list'']),
     ([POST], [''/api/graph-rag/global'', ''/api/graph-rag/local'']),
     ([POST], [''/api/graph-rag/communities'']),
     ([GET], [''/api/stats'', ''/health'']),
     ([POST, GET], map (\<lambda>s. ''/api/knowledge-graph/'' @ s)
        [''extract'', ''import'', ''data'', ''query'', ''constraints'', ''statistics'', ''clear'',
         ''sample-contract'']),
     ([POST], [''/api/database/reset''])]"

definition in_table :: "http_method \<Rightarrow> string \<Rightarrow> bool" where
  "in_table m p = list_ex (\<lambda>(ms, ps). m \<in> set ms \<and> p \<in> set ps) endpoint_table"

text \<open>
  The path the table lists for each operation, the operation found by its purpose and
  name (\<open>getGraphData\<close> is the row's \<open>data\<close>, \<open>createConstraints\<close> its
  \<open>constraints\<close>, and so on).
\<close>

fun listed_path :: "api_op \<Rightarrow> string" where
  "listed_path PdfUploadPDF = ''/api/pdf/upload''"
| "listed_path PdfDownloadPDF = ''/api/pdf/download''"
| "listed_path RagQuery = ''/api/rag/query''"
| "listed_path RagStepbackQuery = ''/api/rag/stepback''"
| "listed_path T2cQuery = ''/api/text2cypher/query''"
| "listed_path T2cGetSchema = ''/api/text2cypher/schema''"
| "listed_path T2cLoadMoviesDataset = ''/api/text2cypher/load-movies''"
| "listed_path AgenticQuery = ''/api/agentic-rag/query''"
| "listed_path AgenticGetTools = ''/api/agentic-rag/tools''"
| "listed_path EntityExtract = ''/api/entities/extract''"
| "listed_path EntityGetGraph = ''/api/entities/graph''"
| "listed_path ContractExtract = ''/api/contracts/extract''"
| "listed_path ContractList = ''/api/contracts/list''"
| "listed_path GraphGlobalQuery = ''/api/graph-rag/global''"
| "listed_path GraphLocalQuery = ''/api/graph-rag/local''"
| "listed_path GraphCalculateCommunities = ''/api/graph-rag/communities''"
| "listed_path StatsGetStats = ''/api/stats''"
| "listed_path StatsGetHealth = ''/health''"
| "listed_path KgExtract = ''/api/knowledge-graph/extract''"
| "listed_path KgImport = ''/api/knowledge-graph/import''"
| "listed_path KgGetSampleContract = ''/api/knowledge-graph/sample-contract''"
| "listed_path KgGetGraphData = ''/api/knowledge-graph/data''"
| "listed_path KgQuery = ''/api/knowledge-graph/query''"
| "listed_path KgCreateConstraints = ''/api/knowledge-graph/constraints''"
| "listed_path KgGetStatistics = ''/api/knowledge-graph/statistics''"
| "listed_path KgClear = ''/api/knowledge-graph/clear''"
| "listed_path DbReset = ''/api/database/reset''"

text \<open>The three operations the specification names with their endpoints.\<close>

definition named_endpoints :: "(api_op \<times> http_method \<times> string) list" where
  "named_endpoints =
    [(RagQuery, POST, ''/api/rag/query''),
     (StatsGetHealth, GET, ''/health''),
     (DbReset, POST, ''/api/database/reset'')]"

section \<open>What a handler does besides updating its state\<close>

text \<open>
  A handler is a function from the page state to the new state and the effects it causes,
  in order. A toast or a console line is recorded by the literal text of the source;
  where the source appends a detail of the error to that text, the literal is its prefix.
  \<open>Refetch k\<close> is a call of the \<open>refetch\<close> function of the query with key \<open>k\<close>.

  Rendering is not modelled. A handler can run in any state of its page, also one in
  which the page shows its button disabled; what the handler then does is its own guard.
  The \<open>isLoading\<close> flag of a mutation is part of the state only where a handler reads
  it, on the chat page.
\<close>

datatype effect =
    Http call
  | ToastSuccess string
  | ToastError string
  | ConsoleError string
  | ConsoleLog string
  | Refetch string
  | InvalidateQueries string

fun is_http :: "effect \<Rightarrow> bool" where
  "is_http (Http c) = True"
| "is_http _ = False"

definition requests :: "effect list \<Rightarrow> effect list" where
  "requests es = filter is_http es"

text \<open>
  How a request settles: the promise resolves with the axios response object, or rejects
  with an error value. \<open>response.data\<close> is the decoded body.
\<close>

datatype outcome = Resolved js | Rejected js

definition response_data :: "js \<Rightarrow> js" where
  "response_data response = get_prop ''data'' response"

text \<open>The value thrown when a property of undefined or null is read, or a non-function is called.\<close>

definition TypeError :: js where
  "TypeError = JObj [(''name'', JStr (ascii ''TypeError''))]"

text \<open>\<open>err.response?.data?.detail || fallback\<close>\<close>

definition detail_or :: "js \<Rightarrow> js \<Rightarrow> js" where
  "detail_or err fallback =
     js_or (get_prop ''detail'' (get_prop ''data'' (get_prop ''response'' err))) fallback"

text \<open>\<open>!v.trim()\<close> on a state value: only a string has \<open>trim\<close>, anything else throws.\<close>

fun not_trim :: "js \<Rightarrow> js + bool" where
  "not_trim (JStr s) = Inr (blank s)"
| "not_trim _ = Inl TypeError"

section \<open>The query library, as this layer configures it\<close>

text \<open>
  \<open>useMutation(fn, callbacks).mutate(variables)\<close> calls \<open>fn(variables)\<close>: the variables
  are the single argument, so every further parameter of \<open>fn\<close> is undefined. The callbacks
  given to \<open>useMutation\<close> run when the promise settles.

  \<open>useQuery(key, fn, options)\<close>: the options the pages pass. A failing query function is
  called again as many times as \<open>retry\<close> says; where a page gives no \<open>retry\<close>, the
  library's default count applies, a parameter here.
\<close>

datatype retry_option = RetryFalse | RetryCount nat

record query_options =
  enabled :: "bool option"
  refetchInterval :: "nat option"
  refetchOnWindowFocus :: "bool option"
  retry :: "retry_option option"

record use_query =
  queryKey :: string
  queryFn :: call
  options :: query_options

definition no_options :: query_options where
  "no_options = \<lparr> enabled = None, refetchInterval = None, refetchOnWindowFocus = None, retry = None \<rparr>"

definition retry_count :: "nat \<Rightarrow> query_options \<Rightarrow> nat" where
  "retry_count library_default opts =
     (case retry opts of None \<Rightarrow> library_default
      | Some RetryFalse \<Rightarrow> 0
      | Some (RetryCount n) \<Rightarrow> n)"

text \<open>
  The requests one fetch of a query sends, given the retries left and how the successive
  attempts settle (the list ends where an attempt is still pending).
\<close>

fun fetch_with_retry :: "nat \<Rightarrow> call \<Rightarrow> outcome list \<Rightarrow> call list" where
  "fetch_with_retry r c [] = [c]"
| "fetch_with_retry r c (Resolved x # os) = [c]"
| "fetch_with_retry 0 c (Rejected e # os) = [c]"
| "fetch_with_retry (Suc r) c (Rejected e # os) = c # fetch_with_retry r c os"

definition fetch_query :: "nat \<Rightarrow> use_query \<Rightarrow> outcome list \<Rightarrow> call list" where
  "fetch_query library_default q os =
     fetch_with_retry (retry_count library_default (options q)) (queryFn q) os"

section \<open>RAG chat page (pages/RAGChat.js)\<close>

text \<open>
  \<open>chat_isLoading\<close> is \<open>queryMutation.isLoading\<close>: true from \<open>mutate\<close> until the
  mutation has settled.
\<close>

record rag_chat =
  chat_messages :: "js list"
  chat_input :: jsstring
  chat_searchType :: jsstring
  chat_isLoading :: bool

text \<open>The page opens with the greeting of the assistant; \<open>now\<close> is the clock at that moment.\<close>

definition RAGChat_initial :: "int \<Rightarrow> rag_chat" where
  "RAGChat_initial now =
     \<lparr> chat_messages =
         [JObj [(''id'', JNum 1), (''type'', JStr (ascii ''bot'')),
                (''content'', JStr (ascii (''Hello! I'' @ [CHR 0x27] @ ''m your RAG assistant. Ask me questions about your uploaded documents and I'' @ [CHR 0x27] @ ''ll help you find answers using advanced retrieval techniques.''))),
                (''timestamp'', JNum now)]],
       chat_input = [],
       chat_searchType = ascii ''hybrid'',
       chat_isLoading = False \<rparr>"

definition RAGChat_mutationFn :: "js \<Rightarrow> call" where
  "RAGChat_mutationFn variables =
     (let question = get_prop ''question'' variables; type = get_prop ''type'' variables
      in if type = JStr (ascii ''stepback'') then ragAPI_stepbackQuery question
         else ragAPI_query question type)"

text \<open>\<open>now\<close> is the clock reading of \<open>Date.now()\<close> and \<open>new Date()\<close>.\<close>

definition RAGChat_handleSubmit :: "int \<Rightarrow> rag_chat \<Rightarrow> rag_chat \<times> effect list" where
  "RAGChat_handleSubmit now st =
     (if blank (chat_input st) \<or> chat_isLoading st then (st, [])
      else
        let userMessage = JObj [(''id'', JNum now), (''type'', JStr (ascii ''user'')),
                                (''content'', JStr (chat_input st)), (''timestamp'', JNum now)]
        in (st\<lparr> chat_messages := chat_messages st @ [userMessage],
                 chat_isLoading := True,
                 chat_input := [] \<rparr>,
            [Http (RAGChat_mutationFn
               (JObj [(''question'', JStr (chat_input st)),
                      (''type'', JStr (chat_searchType st))]))]))"

text \<open>
  \<open>onSuccess\<close> reads properties of \<open>response.data\<close>: when the body is undefined or null
  the first read throws and no message is appended (\<open>Inl\<close>; what the library does with
  the exception is not part of this function).
\<close>

definition RAGChat_onSuccess :: "int \<Rightarrow> js \<Rightarrow> js \<Rightarrow> rag_chat \<Rightarrow> js + rag_chat" where
  "RAGChat_onSuccess now response variables st =
     (let d = response_data response in
      if nullish d then Inl TypeError
      else
        let botMessage = JObj
          [(''id'', JNum now), (''type'', JStr (ascii ''bot'')),
           (''content'', get_prop ''answer'' d),
           (''searchType'', get_prop ''type'' variables),
           (''retrievedDocs'',
              js_or (get_prop ''retrieved_documents'' d) (get_prop ''retrievedDocuments'' d)),
           (''metadata'', JObj [(''searchType'', get_prop ''search_type'' d),
                                (''stepbackQuestion'', get_prop ''stepback_question'' d)]),
           (''timestamp'', JNum now)]
        in Inr (st\<lparr> chat_messages := chat_messages st @ [botMessage], chat_isLoading := False \<rparr>))"

definition RAGChat_onError :: "int \<Rightarrow> js \<Rightarrow> rag_chat \<Rightarrow> rag_chat \<times> effect list" where
  "RAGChat_onError now error st =
     (let errorMessage = JObj
        [(''id'', JNum now), (''type'', JStr (ascii ''bot'')),
         (''content'', JStr (ascii
            ''Sorry, I encountered an error while processing your question. Please try again.'')),
         (''timestamp'', JNum now)]
      in (st\<lparr> chat_messages := chat_messages st @ [errorMessage], chat_isLoading := False \<rparr>,
          [ToastError ''Failed to get response'']))"

section \<open>Graph RAG page (pages/GraphRAG.js)\<close>

record graph_rag =
  gr_question :: jsstring
  gr_searchType :: jsstring
  gr_result :: js

definition GraphRAG_handleSubmit :: "graph_rag \<Rightarrow> graph_rag \<times> effect list" where
  "GraphRAG_handleSubmit st =
     (if blank (gr_question st) then (st, [])
      else if gr_searchType st = ascii ''global''
      then (st, [Http (graphRAGAPI_globalQuery (JObj [(''question'', JStr (gr_question st))]))])
      else (st, [Http (graphRAGAPI_localQuery (JObj [(''question'', JStr (gr_question st))]))]))"

definition GraphRAG_global_onSuccess :: "js \<Rightarrow> graph_rag \<Rightarrow> graph_rag \<times> effect list" where
  "GraphRAG_global_onSuccess response st =
     (st\<lparr> gr_result := response_data response \<rparr>, [ToastSuccess ''Global graph RAG completed!''])"

definition GraphRAG_global_onError :: "js \<Rightarrow> graph_rag \<Rightarrow> graph_rag \<times> effect list" where
  "GraphRAG_global_onError error st =
     (st, [ToastError ''Failed to perform global graph RAG'', ConsoleError ''Global RAG error:''])"

definition GraphRAG_local_onSuccess :: "js \<Rightarrow> graph_rag \<Rightarrow> graph_rag \<times> effect list" where
  "GraphRAG_local_onSuccess response st =
     (st\<lparr> gr_result := response_data response \<rparr>, [ToastSuccess ''Local graph RAG completed!''])"

definition GraphRAG_local_onError :: "js \<Rightarrow> graph_rag \<Rightarrow> graph_rag \<times> effect list" where
  "GraphRAG_local_onError error st =
     (st, [ToastError ''Failed to perform local graph RAG'', ConsoleError ''Local RAG error:''])"

definition GraphRAG_calculateCommunities :: "graph_rag \<Rightarrow> graph_rag \<times> effect list" where
  "GraphRAG_calculateCommunities st = (st, [Http graphRAGAPI_calculateCommunities])"

definition GraphRAG_communities_onSuccess :: "js \<Rightarrow> graph_rag \<Rightarrow> graph_rag \<times> effect list" where
  "GraphRAG_communities_onSuccess response st =
     (st, [ToastSuccess ''Communities calculated successfully!'', ConsoleLog ''Communities result:''])"

definition GraphRAG_communities_onError :: "js \<Rightarrow> graph_rag \<Rightarrow> graph_rag \<times> effect list" where
  "GraphRAG_communities_onError error st =
     (st, [ToastError ''Failed to calculate communities'', ConsoleError ''Communities error:''])"

section \<open>Entity extraction page\<close>

record entity_extraction =
  ee_text :: jsstring
  ee_entityTypes :: "jsstring list"
  ee_result :: js

definition EntityExtraction_initial :: entity_extraction where
  "EntityExtraction_initial =
     \<lparr> ee_text = [],
       ee_entityTypes = [ascii ''PERSON'', ascii ''ORGANIZATION'', ascii ''LOCATION'', ascii ''EVENT''],
       ee_result = JNull \<rparr>"

definition EntityExtraction_graph_query :: use_query where
  "EntityExtraction_graph_query =
     \<lparr> queryKey = ''entity-graph'', queryFn = entityAPI_getGraph,
       options = no_options\<lparr> enabled := Some False \<rparr> \<rparr>"

text \<open>
  \<open>useMutation(entityAPI.extract, ...)\<close> and \<open>extractMutation.mutate({ text, entityTypes })\<close>:
  the object is the first argument of \<open>entityAPI.extract\<close> and its second is undefined.
\<close>

definition EntityExtraction_handleSubmit :: "entity_extraction \<Rightarrow> entity_extraction \<times> effect list" where
  "EntityExtraction_handleSubmit st =
     (if blank (ee_text st) then (st, [])
      else (st, [Http (entityAPI_extract
                   (JObj [(''text'', JStr (ee_text st)),
                          (''entityTypes'', JArr (map JStr (ee_entityTypes st)))])
                   JUndefined)]))"

definition EntityExtraction_onSuccess :: "js \<Rightarrow> entity_extraction \<Rightarrow> entity_extraction \<times> effect list" where
  "EntityExtraction_onSuccess response st =
     (st\<lparr> ee_result := response_data response \<rparr>,
      [ToastSuccess ''Entities extracted successfully!'', Refetch ''entity-graph''])"

definition EntityExtraction_onError :: "js \<Rightarrow> entity_extraction \<Rightarrow> entity_extraction \<times> effect list" where
  "EntityExtraction_onError error st =
     (st, [ToastError ''Failed to extract entities'', ConsoleError ''Extraction error:''])"

definition handleEntityTypeChange :: "jsstring \<Rightarrow> jsstring list \<Rightarrow> jsstring list" where
  "handleEntityTypeChange type prev =
     (if type \<in> set prev then filter (\<lambda>t. t \<noteq> type) prev else prev @ [type])"

section \<open>Contract extraction page\<close>

record contract_extraction =
  ce_contractText :: jsstring
  ce_result :: js

definition ContractExtraction_contracts_query :: use_query where
  "ContractExtraction_contracts_query =
     \<lparr> queryKey = ''contracts'', queryFn = contractAPI_list, options = no_options \<rparr>"

definition ContractExtraction_handleSubmit :: "contract_extraction \<Rightarrow> contract_extraction \<times> effect list" where
  "ContractExtraction_handleSubmit st =
     (if blank (ce_contractText st) then (st, [])
      else (st, [Http (contractAPI_extract
                   (JObj [(''contractText'', JStr (ce_contractText st))]))]))"

definition ContractExtraction_onSuccess :: "js \<Rightarrow> contract_extraction \<Rightarrow> contract_extraction \<times> effect list" where
  "ContractExtraction_onSuccess response st =
     (st\<lparr> ce_result := response_data response \<rparr>,
      [ToastSuccess ''Contract information extracted successfully!'', Refetch ''contracts''])"

definition ContractExtraction_onError :: "js \<Rightarrow> contract_extraction \<Rightarrow> contract_extraction \<times> effect list" where
  "ContractExtraction_onError error st =
     (st, [ToastError ''Failed to extract contract information'', ConsoleError ''Extraction error:''])"

section \<open>Agentic RAG page\<close>

record agentic_rag =
  ar_question :: jsstring
  ar_isLoading :: bool
  ar_result :: js
  ar_availableTools :: js

definition AgenticRAG_tools_query :: use_query where
  "AgenticRAG_tools_query =
     \<lparr> queryKey = ''agentic-rag-tools'', queryFn = agenticRAGAPI_getTools,
       options = no_options\<lparr> refetchOnWindowFocus := Some False, retry := Some (RetryCount 3) \<rparr> \<rparr>"

definition AgenticRAG_handleSubmit :: "agentic_rag \<Rightarrow> agentic_rag \<times> effect list" where
  "AgenticRAG_handleSubmit st =
     (if blank (ar_question st) then (st, [ToastError ''Please enter a question''])
      else (st\<lparr> ar_isLoading := True, ar_result := JNull \<rparr>,
            [ConsoleLog ''Submitting question:'', Http (agenticRAGAPI_query (JStr (ar_question st)))]))"

definition AgenticRAG_onSuccess :: "js \<Rightarrow> agentic_rag \<Rightarrow> agentic_rag \<times> effect list" where
  "AgenticRAG_onSuccess d st =
     (st\<lparr> ar_result := js_or (get_prop ''data'' d) d \<rparr>,
      [ConsoleLog ''Agentic RAG Success:'', ToastSuccess ''Query processed successfully!''])"

definition AgenticRAG_onError :: "js \<Rightarrow> agentic_rag \<Rightarrow> agentic_rag \<times> effect list" where
  "AgenticRAG_onError error st =
     (st\<lparr> ar_result := JNull \<rparr>,
      [ConsoleError ''Agentic RAG Error:'', ToastError ''Failed to process query: ''])"

definition AgenticRAG_onSettled :: "agentic_rag \<Rightarrow> agentic_rag" where
  "AgenticRAG_onSettled st = st\<lparr> ar_isLoading := False \<rparr>"

text \<open>A settled mutation runs \<open>onSuccess\<close> or \<open>onError\<close>, then \<open>onSettled\<close>.\<close>

definition AgenticRAG_settle :: "outcome \<Rightarrow> agentic_rag \<Rightarrow> agentic_rag \<times> effect list" where
  "AgenticRAG_settle out st =
     (case out of
        Resolved d \<Rightarrow> (let (st', es) = AgenticRAG_onSuccess d st in (AgenticRAG_onSettled st', es))
      | Rejected e \<Rightarrow> (let (st', es) = AgenticRAG_onError e st in (AgenticRAG_onSettled st', es)))"

section \<open>PDF processor page (pages/PDFProcessor.js)\<close>

record pdf_processor =
  pp_dragActive :: bool
  pp_url :: jsstring
  pp_processingResults :: js

text \<open>
  \<open>toLowerCase\<close> on the ASCII letters; the test against \<open>'.pdf'\<close> looks at nothing
  else, since no other code unit lower-cases to one of its letters.
\<close>

definition toLowerCase :: "jsstring \<Rightarrow> jsstring" where
  "toLowerCase s = map (\<lambda>c. if 0x41 \<le> c \<and> c \<le> 0x5A then c + 0x20 else c) s"

definition endsWith :: "jsstring \<Rightarrow> jsstring \<Rightarrow> bool" where
  "endsWith s suffix = (length suffix \<le> length s \<and> drop (length s - length suffix) s = suffix)"

definition PDFProcessor_handleUrlSubmit :: "pdf_processor \<Rightarrow> pdf_processor \<times> effect list" where
  "PDFProcessor_handleUrlSubmit st =
     (if blank (pp_url st) then (st, [])
      else if \<not> endsWith (toLowerCase (pp_url st)) (ascii ''.pdf'')
      then (st, [ToastError ''Please provide a valid PDF URL''])
      else (st, [Http (pdfAPI_downloadPDF (JStr (pp_url st)))]))"

text \<open>The dropped or selected files, as the list \<open>files\<close>; only its first entry is looked at.\<close>

definition upload_first :: "js list \<Rightarrow> effect list" where
  "upload_first files =
     (case files of [] \<Rightarrow> []
      | file # rest \<Rightarrow>
          if \<not> truthy file then []
          else if get_prop ''type'' file = JStr (ascii ''application/pdf'')
          then [Http (pdfAPI_uploadPDF file)]
          else [ToastError ''Please upload a PDF file''])"

definition PDFProcessor_handleDrop :: "js list \<Rightarrow> pdf_processor \<Rightarrow> pdf_processor \<times> effect list" where
  "PDFProcessor_handleDrop files st = (st\<lparr> pp_dragActive := False \<rparr>, upload_first files)"

definition PDFProcessor_handleFileSelect :: "js list \<Rightarrow> pdf_processor \<Rightarrow> pdf_processor \<times> effect list" where
  "PDFProcessor_handleFileSelect files st = (st, upload_first files)"

definition PDFProcessor_upload_onSuccess :: "js \<Rightarrow> pdf_processor \<Rightarrow> pdf_processor \<times> effect list" where
  "PDFProcessor_upload_onSuccess response st =
     (st\<lparr> pp_processingResults := response_data response \<rparr>,
      [ToastSuccess ''PDF uploaded and processed successfully!''])"

definition PDFProcessor_upload_onError :: "js \<Rightarrow> pdf_processor \<Rightarrow> pdf_processor \<times> effect list" where
  "PDFProcessor_upload_onError error st =
     (st, [ToastError ''Failed to upload PDF'', ConsoleError ''Upload error:''])"

definition PDFProcessor_download_onSuccess :: "js \<Rightarrow> pdf_processor \<Rightarrow> pdf_processor \<times> effect list" where
  "PDFProcessor_download_onSuccess response st =
     (st\<lparr> pp_processingResults := response_data response, pp_url := [] \<rparr>,
      [ToastSuccess ''PDF downloaded and processed successfully!''])"

definition PDFProcessor_download_onError :: "js \<Rightarrow> pdf_processor \<Rightarrow> pdf_processor \<times> effect list" where
  "PDFProcessor_download_onError error st =
     (st, [ToastError ''Failed to download PDF'', ConsoleError ''Download error:''])"

section \<open>Text2Cypher page\<close>

record text2cypher =
  tc_question :: jsstring
  tc_terminology :: jsstring
  tc_examples :: jsstring
  tc_cypherQuery :: js
  tc_queryResults :: js
  tc_isGenerating :: bool
  tc_isExecuting :: bool

definition Text2Cypher_schema_query :: use_query where
  "Text2Cypher_schema_query =
     \<lparr> queryKey = ''text2cypher-schema'', queryFn = text2cypherAPI_getSchema,
       options = no_options\<lparr> retry := Some RetryFalse \<rparr> \<rparr>"

text \<open>
  An \<open>async\<close> handler is modelled in two steps: what it does up to its \<open>await\<close>
  (\<open>_start\<close>), and what it does once the awaited request has settled (\<open>_settle\<close>):
  the rest of the \<open>try\<close> block, the \<open>catch\<close> block, then \<open>finally\<close>.
\<close>

definition handleGenerateCypher_start :: "text2cypher \<Rightarrow> text2cypher \<times> effect list" where
  "handleGenerateCypher_start st =
     (if blank (tc_question st) then (st, [ToastError ''Please enter a question''])
      else (st\<lparr> tc_isGenerating := True \<rparr>,
            [Http (text2cypherAPI_query (JStr (tc_question st)) (JStr (tc_terminology st))
                     (JStr (tc_examples st)))]))"

definition handleGenerateCypher_settle :: "outcome \<Rightarrow> text2cypher \<Rightarrow> text2cypher \<times> effect list" where
  "handleGenerateCypher_settle out st =
     (case out of
        Resolved response \<Rightarrow>
          (let d = response_data response in
           if nullish d
           then (st\<lparr> tc_isGenerating := False \<rparr>, [ToastError ''Failed to generate Cypher query: ''])
           else (st\<lparr> tc_cypherQuery := get_prop ''cypher_query'' d,
                     tc_queryResults := get_prop ''results'' d,
                     tc_isGenerating := False \<rparr>,
                 [ToastSuccess ''Cypher query generated successfully!'']))
      | Rejected error \<Rightarrow>
          (st\<lparr> tc_isGenerating := False \<rparr>, [ToastError ''Failed to generate Cypher query: '']))"

definition handleExecuteQuery_start :: "text2cypher \<Rightarrow> js + text2cypher \<times> effect list" where
  "handleExecuteQuery_start st =
     (case not_trim (tc_cypherQuery st) of
        Inl e \<Rightarrow> Inl e
      | Inr b \<Rightarrow>
          if b then Inr (st, [ToastError ''Please generate a Cypher query first''])
          else Inr (st\<lparr> tc_isExecuting := True \<rparr>,
                    [Http (text2cypherAPI_query (JStr (tc_question st)) (JStr (tc_terminology st))
                             (JStr (tc_examples st)))]))"

definition handleExecuteQuery_settle :: "outcome \<Rightarrow> text2cypher \<Rightarrow> text2cypher \<times> effect list" where
  "handleExecuteQuery_settle out st =
     (case out of
        Resolved response \<Rightarrow>
          (let d = response_data response in
           if nullish d
           then (st\<lparr> tc_isExecuting := False \<rparr>, [ToastError ''Failed to execute query: ''])
           else (st\<lparr> tc_queryResults := get_prop ''results'' d, tc_isExecuting := False \<rparr>,
                 [ToastSuccess ''Query executed successfully!'']))
      | Rejected error \<Rightarrow>
          (st\<lparr> tc_isExecuting := False \<rparr>, [ToastError ''Failed to execute query: '']))"

text \<open>\<open>confirmed\<close> is what \<open>window.confirm\<close> returned.\<close>

definition Text2Cypher_handleLoadMoviesDataset :: "bool \<Rightarrow> text2cypher \<Rightarrow> text2cypher \<times> effect list" where
  "Text2Cypher_handleLoadMoviesDataset confirmed st =
     (if confirmed then (st, [Http text2cypherAPI_loadMoviesDataset]) else (st, []))"

definition Text2Cypher_loadMovies_onSuccess :: "js \<Rightarrow> text2cypher \<Rightarrow> text2cypher \<times> effect list" where
  "Text2Cypher_loadMovies_onSuccess response st =
     (st, [ToastSuccess ''Movies dataset loaded successfully!'', Refetch ''text2cypher-schema'',
           InvalidateQueries ''stats''])"

definition Text2Cypher_loadMovies_onError :: "js \<Rightarrow> text2cypher \<Rightarrow> text2cypher \<times> effect list" where
  "Text2Cypher_loadMovies_onError error st = (st, [ToastError ''Failed to load movies dataset: ''])"

definition Text2Cypher_handleResetDatabase :: "bool \<Rightarrow> text2cypher \<Rightarrow> text2cypher \<times> effect list" where
  "Text2Cypher_handleResetDatabase confirmed st =
     (if confirmed then (st, [Http databaseAPI_reset]) else (st, []))"

definition Text2Cypher_reset_onSuccess :: "js \<Rightarrow> text2cypher \<Rightarrow> text2cypher \<times> effect list" where
  "Text2Cypher_reset_onSuccess response st =
     (st\<lparr> tc_cypherQuery := JStr [], tc_queryResults := JNull \<rparr>,
      [ToastSuccess ''Database reset successfully!'', Refetch ''text2cypher-schema'',
       InvalidateQueries ''stats''])"

definition Text2Cypher_reset_onError :: "js \<Rightarrow> text2cypher \<Rightarrow> text2cypher \<times> effect list" where
  "Text2Cypher_reset_onError error st = (st, [ToastError ''Failed to reset database: ''])"

section \<open>Knowledge graph construction page\<close>

record kg_construction =
  kg_contractText :: js
  kg_extractedData :: js
  kg_graphData :: js
  kg_statistics :: js
  kg_query :: jsstring
  kg_queryResult :: js
  kg_loading :: bool
  kg_error :: js
  kg_activeTab :: jsstring

text \<open>
  The three loaders catch their own failures, so they never throw. Each sends its request
  and, given how it settles, stores the body or logs.
\<close>

definition loadSampleContract :: "outcome \<Rightarrow> kg_construction \<Rightarrow> kg_construction \<times> effect list" where
  "loadSampleContract out st =
     (case out of
        Resolved response \<Rightarrow>
          (let d = response_data response in
           if nullish d
           then (st, [Http knowledgeGraphAPI_getSampleContract,
                      ConsoleError ''Error loading sample contract:''])
           else (st\<lparr> kg_contractText := get_prop ''sample_contract'' d \<rparr>,
                 [Http knowledgeGraphAPI_getSampleContract]))
      | Rejected err \<Rightarrow>
          (st, [Http knowledgeGraphAPI_getSampleContract,
                ConsoleError ''Error loading sample contract:'']))"

definition loadStatistics :: "outcome \<Rightarrow> kg_construction \<Rightarrow> kg_construction \<times> effect list" where
  "loadStatistics out st =
     (case out of
        Resolved response \<Rightarrow>
          (st\<lparr> kg_statistics := response_data response \<rparr>, [Http knowledgeGraphAPI_getStatistics])
      | Rejected err \<Rightarrow>
          (st, [Http knowledgeGraphAPI_getStatistics, ConsoleError ''Error loading statistics:'']))"

definition loadGraphData :: "outcome \<Rightarrow> kg_construction \<Rightarrow> kg_construction \<times> effect list" where
  "loadGraphData out st =
     (case out of
        Resolved response \<Rightarrow>
          (st\<lparr> kg_graphData := response_data response \<rparr>, [Http knowledgeGraphAPI_getGraphData])
      | Rejected err \<Rightarrow>
          (st, [Http knowledgeGraphAPI_getGraphData, ConsoleError ''Error loading graph data:'']))"

definition extractContractInfo_start :: "kg_construction \<Rightarrow> js + kg_construction \<times> effect list" where
  "extractContractInfo_start st =
     (case not_trim (kg_contractText st) of
        Inl e \<Rightarrow> Inl e
      | Inr b \<Rightarrow>
          if b then Inr (st\<lparr> kg_error := JStr (ascii ''Please enter contract text'') \<rparr>, [])
          else Inr (st\<lparr> kg_loading := True, kg_error := JNull \<rparr>,
                    [Http (knowledgeGraphAPI_extract (kg_contractText st))]))"

definition extractContractInfo_settle :: "outcome \<Rightarrow> kg_construction \<Rightarrow> kg_construction \<times> effect list" where
  "extractContractInfo_settle out st =
     (case out of
        Resolved response \<Rightarrow>
          (st\<lparr> kg_extractedData := response_data response, kg_loading := False \<rparr>, [])
      | Rejected err \<Rightarrow>
          (st\<lparr> kg_error := detail_or err (JStr (ascii ''Error extracting contract information'')),
               kg_loading := False \<rparr>, []))"

definition importToGraph_start :: "kg_construction \<Rightarrow> js + kg_construction \<times> effect list" where
  "importToGraph_start st =
     (case not_trim (kg_contractText st) of
        Inl e \<Rightarrow> Inl e
      | Inr b \<Rightarrow>
          if b then Inr (st\<lparr> kg_error := JStr (ascii ''Please enter contract text'') \<rparr>, [])
          else Inr (st\<lparr> kg_loading := True, kg_error := JNull \<rparr>,
                    [Http (knowledgeGraphAPI_import (kg_contractText st))]))"

text \<open>After a successful import the handler awaits \<open>loadStatistics\<close>, then \<open>loadGraphData\<close>.\<close>

definition importToGraph_settle ::
  "outcome \<Rightarrow> outcome \<Rightarrow> outcome \<Rightarrow> kg_construction \<Rightarrow> kg_construction \<times> effect list" where
  "importToGraph_settle out stats_out graph_out st =
     (case out of
        Resolved response \<Rightarrow>
          (let d = response_data response in
           if nullish d
           then (st\<lparr> kg_error := detail_or TypeError (JStr (ascii ''Error importing contract to graph'')),
                     kg_loading := False \<rparr>, [])
           else
             let st1 = st\<lparr> kg_extractedData := get_prop ''extraction_result'' d, kg_error := JNull \<rparr>;
                 (st2, es1) = loadStatistics stats_out st1;
                 (st3, es2) = loadGraphData graph_out st2
             in (st3\<lparr> kg_loading := False \<rparr>, es1 @ es2))
      | Rejected err \<Rightarrow>
          (st\<lparr> kg_error := detail_or err (JStr (ascii ''Error importing contract to graph'')),
               kg_loading := False \<rparr>, []))"

definition createConstraints_start :: "kg_construction \<Rightarrow> kg_construction \<times> effect list" where
  "createConstraints_start st =
     (st\<lparr> kg_loading := True \<rparr>, [Http knowledgeGraphAPI_createConstraints])"

definition createConstraints_settle :: "outcome \<Rightarrow> kg_construction \<Rightarrow> kg_construction \<times> effect list" where
  "createConstraints_settle out st =
     (case out of
        Resolved response \<Rightarrow> (st\<lparr> kg_error := JNull, kg_loading := False \<rparr>, [])
      | Rejected err \<Rightarrow>
          (st\<lparr> kg_error := detail_or err (JStr (ascii ''Error creating constraints'')),
               kg_loading := False \<rparr>, []))"

definition clearData_start :: "bool \<Rightarrow> kg_construction \<Rightarrow> kg_construction \<times> effect list" where
  "clearData_start confirmed st =
     (if \<not> confirmed then (st, [])
      else (st\<lparr> kg_loading := True \<rparr>, [Http knowledgeGraphAPI_clear]))"

definition clearData_settle :: "outcome \<Rightarrow> outcome \<Rightarrow> kg_construction \<Rightarrow> kg_construction \<times> effect list" where
  "clearData_settle out stats_out st =
     (case out of
        Resolved response \<Rightarrow>
          (let st1 = st\<lparr> kg_extractedData := JNull, kg_graphData := JNull \<rparr>;
               (st2, es) = loadStatistics stats_out st1
           in (st2\<lparr> kg_error := JNull, kg_loading := False \<rparr>, es))
      | Rejected err \<Rightarrow>
          (st\<lparr> kg_error := detail_or err (JStr (ascii ''Error clearing data'')),
               kg_loading := False \<rparr>, []))"

definition queryContracts_start :: "kg_construction \<Rightarrow> kg_construction \<times> effect list" where
  "queryContracts_start st =
     (if blank (kg_query st) then (st\<lparr> kg_error := JStr (ascii ''Please enter a question'') \<rparr>, [])
      else (st\<lparr> kg_loading := True, kg_error := JNull \<rparr>,
            [Http (knowledgeGraphAPI_query (JStr (kg_query st)))]))"

definition queryContracts_settle :: "outcome \<Rightarrow> kg_construction \<Rightarrow> kg_construction \<times> effect list" where
  "queryContracts_settle out st =
     (case out of
        Resolved response \<Rightarrow>
          (st\<lparr> kg_queryResult := response_data response, kg_loading := False \<rparr>, [])
      | Rejected err \<Rightarrow>
          (st\<lparr> kg_error := detail_or err (JStr (ascii ''Error querying contracts'')),
               kg_loading := False \<rparr>, []))"

section \<open>Dashboard and statistics pages\<close>

text \<open>Neither page has state of its own; its data lives in its queries.\<close>

definition Dashboard_stats_query :: use_query where
  "Dashboard_stats_query =
     \<lparr> queryKey = ''stats'', queryFn = statsAPI_getStats,
       options = no_options\<lparr> refetchInterval := Some 30000 \<rparr> \<rparr>"

definition Dashboard_health_query :: use_query where
  "Dashboard_health_query =
     \<lparr> queryKey = ''health'', queryFn = statsAPI_getHealth,
       options = no_options\<lparr> refetchInterval := Some 10000 \<rparr> \<rparr>"

definition Dashboard_handleResetDatabase_start :: "bool \<Rightarrow> effect list" where
  "Dashboard_handleResetDatabase_start confirmed = (if confirmed then [Http databaseAPI_reset] else [])"

definition Dashboard_handleResetDatabase_settle :: "outcome \<Rightarrow> effect list" where
  "Dashboard_handleResetDatabase_settle out =
     (case out of
        Resolved response \<Rightarrow> [ToastSuccess ''Database reset successfully!'', Refetch ''stats'']
      | Rejected error \<Rightarrow> [ToastError ''Failed to reset database: ''])"

definition Statistics_stats_query :: use_query where
  "Statistics_stats_query =
     \<lparr> queryKey = ''detailed-stats'', queryFn = statsAPI_getStats,
       options = no_options\<lparr> refetchInterval := Some 30000 \<rparr> \<rparr>"

definition Statistics_handleResetDatabase_start :: "bool \<Rightarrow> effect list" where
  "Statistics_handleResetDatabase_start confirmed = (if confirmed then [Http databaseAPI_reset] else [])"

definition Statistics_handleResetDatabase_settle :: "outcome \<Rightarrow> effect list" where
  "Statistics_handleResetDatabase_settle out =
     (case out of
        Resolved response \<Rightarrow> [ToastSuccess ''Database reset successfully!'', Refetch ''detailed-stats'']
      | Rejected error \<Rightarrow> [ToastError ''Failed to reset database: ''])"

text \<open>Every \<open>useQuery\<close> of the pages.\<close>

definition page_queries :: "use_query list" where
  "page_queries =
     [Dashboard_stats_query, Dashboard_health_query, Statistics_stats_query,
      Text2Cypher_schema_query, AgenticRAG_tools_query, ContractExtraction_contracts_query,
      EntityExtraction_graph_query]"

section \<open>Properties of the client and the domain modules\<close>

lemmas api_defs =
  api_post_def api_get_def
  pdfAPI_uploadPDF_def pdfAPI_downloadPDF_def ragAPI_query_def ragAPI_stepbackQuery_def
  text2cypherAPI_query_def text2cypherAPI_getSchema_def text2cypherAPI_loadMoviesDataset_def
  agenticRAGAPI_query_def agenticRAGAPI_getTools_def entityAPI_extract_def entityAPI_getGraph_def
  contractAPI_extract_def contractAPI_list_def graphRAGAPI_globalQuery_def
  graphRAGAPI_localQuery_def graphRAGAPI_calculateCommunities_def statsAPI_getStats_def
  statsAPI_getHealth_def knowledgeGraphAPI_extract_def knowledgeGraphAPI_import_def
  knowledgeGraphAPI_getSampleContract_def knowledgeGraphAPI_getGraphData_def
  knowledgeGraphAPI_query_def knowledgeGraphAPI_createConstraints_def
  knowledgeGraphAPI_getStatistics_def knowledgeGraphAPI_clear_def databaseAPI_reset_def

lemmas js_string_defs = ascii_def blank_def trim_def js_whitespace_def

lemma blank_iff: "blank s \<longleftrightarrow> list_all js_whitespace s"
proof -
  have "(\<forall>x\<in>set (dropWhile P s). P x) \<longleftrightarrow> (\<forall>x\<in>set s. P x)" for P :: "16 word \<Rightarrow> bool"
    by (induction s) auto
  then show ?thesis
    unfolding blank_def trim_def by (simp add: list_all_iff)
qed

text \<open>
  C4. Whatever the arguments, every function of every domain module emits the method and
  the path the endpoint table lists for it: the pair stands in the table, the path is the
  one listed for the operation, and the three operations the specification names
  (\<open>ragAPI.query\<close>, \<open>statsAPI.getHealth\<close>, \<open>databaseAPI.reset\<close>) emit exactly
  \<open>POST /api/rag/query\<close>, \<open>GET /health\<close> and \<open>POST /api/database/reset\<close>.
\<close>

theorem endpoints_match_table:
  "in_table (http_method (invoke op as)) (url (invoke op as))
   \<and> url (invoke op as) = listed_path op
   \<and> list_all (\<lambda>(op', m, p). http_method (invoke op' as) = m \<and> url (invoke op' as) = p)
        named_endpoints"
  by (cases op) (simp_all add: api_defs in_table_def endpoint_table_def named_endpoints_def)

text \<open>
  C8. Every request sent through the shared client, whatever the operation, its arguments
  and the environment, has the effective timeout 30000 ms; no domain function puts a
  timeout in its per-request configuration (the upload sets a header only).
\<close>

theorem timeout_fixed:
  "timeout (wire_config (dispatch (api env) (invoke op as))) = Some 30000
   \<and> (case call_config (invoke op as) of None \<Rightarrow> True | Some c \<Rightarrow> timeout c = None)"
  by (cases op) (simp_all add: api_defs dispatch_def mergeConfig_def api_def)

section \<open>Properties of the pages\<close>

lemmas handler_defs =
  RAGChat_handleSubmit_def RAGChat_onError_def
  GraphRAG_handleSubmit_def GraphRAG_global_onSuccess_def GraphRAG_global_onError_def
  GraphRAG_local_onSuccess_def GraphRAG_local_onError_def GraphRAG_calculateCommunities_def
  GraphRAG_communities_onSuccess_def GraphRAG_communities_onError_def
  EntityExtraction_handleSubmit_def EntityExtraction_onSuccess_def EntityExtraction_onError_def
  ContractExtraction_handleSubmit_def ContractExtraction_onSuccess_def ContractExtraction_onError_def
  AgenticRAG_handleSubmit_def AgenticRAG_onSuccess_def AgenticRAG_onError_def AgenticRAG_onSettled_def
  AgenticRAG_settle_def
  PDFProcessor_handleUrlSubmit_def PDFProcessor_handleDrop_def PDFProcessor_handleFileSelect_def
  PDFProcessor_upload_onSuccess_def PDFProcessor_upload_onError_def
  PDFProcessor_download_onSuccess_def PDFProcessor_download_onError_def
  handleGenerateCypher_start_def handleGenerateCypher_settle_def
  handleExecuteQuery_start_def handleExecuteQuery_settle_def
  Text2Cypher_handleLoadMoviesDataset_def Text2Cypher_loadMovies_onSuccess_def
  Text2Cypher_loadMovies_onError_def Text2Cypher_handleResetDatabase_def
  Text2Cypher_reset_onSuccess_def Text2Cypher_reset_onError_def
  loadSampleContract_def loadStatistics_def loadGraphData_def
  extractContractInfo_start_def extractContractInfo_settle_def
  importToGraph_start_def importToGraph_settle_def
  createConstraints_start_def createConstraints_settle_def
  clearData_start_def clearData_settle_def
  queryContracts_start_def queryContracts_settle_def
  Dashboard_handleResetDatabase_start_def Dashboard_handleResetDatabase_settle_def
  Statistics_handleResetDatabase_start_def Statistics_handleResetDatabase_settle_def

lemmas query_defs =
  Dashboard_stats_query_def Dashboard_health_query_def Statistics_stats_query_def
  Text2Cypher_schema_query_def AgenticRAG_tools_query_def ContractExtraction_contracts_query_def
  EntityExtraction_graph_query_def no_options_def fetch_query_def retry_count_def

subsection \<open>The entity-extraction form\<close>

text \<open>
  Called with the text and the selected types as its two arguments, the domain function
  builds the body \<open>{text, entity_types}\<close> with exactly the types it was given.
\<close>

lemma entity_module_body:
  "data (entityAPI_extract t (JArr S)) = JObj [(''text'', t), (''entity_types'', JArr S)]"
  by (simp add: entityAPI_extract_def api_post_def default_param_def)

text \<open>
  The form, though, hands both to \<open>mutate\<close> as one object. For every non-blank text and
  every selection, the request carries that object as its \<open>text\<close> and the four default
  types as its \<open>entity_types\<close>.
\<close>

lemma entity_submit_body:
  "\<not> blank (ee_text st) \<Longrightarrow>
   EntityExtraction_handleSubmit st =
     (st, [Http \<lparr> http_method = POST, url = ''/api/entities/extract'',
                   data = JObj [(''text'', JObj [(''text'', JStr (ee_text st)),
                                                 (''entityTypes'', JArr (map JStr (ee_entityTypes st)))]),
                                (''entity_types'',
                                   JArr [JStr (ascii ''PERSON''), JStr (ascii ''ORGANIZATION''),
                                         JStr (ascii ''LOCATION''), JStr (ascii ''EVENT'')])],
                   call_config = None \<rparr>])"
  by (simp add: EntityExtraction_handleSubmit_def entityAPI_extract_def api_post_def default_param_def)

text \<open>
  C1. The claim is that a submission with text \<open>t\<close> and selection \<open>S\<close> sends the body
  \<open>{text: t, entity_types: S}\<close>. With the text \<open>Tim Cook\<close> and only \<open>PERSON\<close>
  checked, the form sends one request whose \<open>text\<close> is the object
  \<open>{text: 'Tim Cook', entityTypes: ['PERSON']}\<close> and whose \<open>entity_types\<close> are
  \<open>PERSON, ORGANIZATION, LOCATION, EVENT\<close>: not the body the claim describes.
\<close>

theorem entity_submit_ignores_selection:
  "snd (EntityExtraction_handleSubmit
          \<lparr> ee_text = ascii ''Tim Cook'', ee_entityTypes = [ascii ''PERSON''], ee_result = JNull \<rparr>)
   = [Http \<lparr> http_method = POST, url = ''/api/entities/extract'',
              data = JObj [(''text'', JObj [(''text'', JStr (ascii ''Tim Cook'')),
                                            (''entityTypes'', JArr [JStr (ascii ''PERSON'')])]),
                           (''entity_types'',
                              JArr [JStr (ascii ''PERSON''), JStr (ascii ''ORGANIZATION''),
                                    JStr (ascii ''LOCATION''), JStr (ascii ''EVENT'')])],
              call_config = None \<rparr>]
   \<and> snd (EntityExtraction_handleSubmit
          \<lparr> ee_text = ascii ''Tim Cook'', ee_entityTypes = [ascii ''PERSON''], ee_result = JNull \<rparr>)
   \<noteq> [Http \<lparr> http_method = POST, url = ''/api/entities/extract'',
              data = JObj [(''text'', JStr (ascii ''Tim Cook'')),
                           (''entity_types'', JArr [JStr (ascii ''PERSON'')])],
              call_config = None \<rparr>]"
  by (simp add: EntityExtraction_handleSubmit_def entityAPI_extract_def api_post_def default_param_def
        js_string_defs)

subsection \<open>Failures\<close>

text \<open>
  C2, as the code has it. When a request fails, every page but one keeps what it shows:
  the error callbacks of the Graph RAG, entity, contract and PDF pages and of the
  Text2Cypher mutations leave the whole state as it is; the Text2Cypher handlers keep the
  query and its results; the knowledge-graph handlers change the error text and the
  loading flag only; the chat keeps every message and appends an apology; the reset on the
  dashboard and statistics pages only reports. The Agentic RAG page is the exception: it
  clears its result when a question is submitted and again when the request fails.
\<close>

theorem error_keeps_results:
  "fst (GraphRAG_global_onError e gr) = gr
   \<and> fst (GraphRAG_local_onError e gr) = gr
   \<and> fst (GraphRAG_communities_onError e gr) = gr
   \<and> fst (EntityExtraction_onError e ee) = ee
   \<and> fst (ContractExtraction_onError e ce) = ce
   \<and> fst (PDFProcessor_upload_onError e pp) = pp
   \<and> fst (PDFProcessor_download_onError e pp) = pp
   \<and> chat_messages (fst (RAGChat_onError now e chat)) =
        chat_messages chat @
          [JObj [(''id'', JNum now), (''type'', JStr (ascii ''bot'')),
                 (''content'', JStr (ascii
                    ''Sorry, I encountered an error while processing your question. Please try again.'')),
                 (''timestamp'', JNum now)]]
   \<and> tc_cypherQuery (fst (handleGenerateCypher_settle (Rejected e) tc)) = tc_cypherQuery tc
   \<and> tc_queryResults (fst (handleGenerateCypher_settle (Rejected e) tc)) = tc_queryResults tc
   \<and> tc_cypherQuery (fst (handleExecuteQuery_settle (Rejected e) tc)) = tc_cypherQuery tc
   \<and> tc_queryResults (fst (handleExecuteQuery_settle (Rejected e) tc)) = tc_queryResults tc
   \<and> fst (Text2Cypher_loadMovies_onError e tc) = tc
   \<and> fst (Text2Cypher_reset_onError e tc) = tc
   \<and> fst (extractContractInfo_settle (Rejected e) kg)
        = kg\<lparr> kg_error := detail_or e (JStr (ascii ''Error extracting contract information'')),
              kg_loading := False \<rparr>
   \<and> fst (importToGraph_settle (Rejected e) o1 o2 kg)
        = kg\<lparr> kg_error := detail_or e (JStr (ascii ''Error importing contract to graph'')),
              kg_loading := False \<rparr>
   \<and> fst (queryContracts_settle (Rejected e) kg)
        = kg\<lparr> kg_error := detail_or e (JStr (ascii ''Error querying contracts'')),
              kg_loading := False \<rparr>
   \<and> fst (createConstraints_settle (Rejected e) kg)
        = kg\<lparr> kg_error := detail_or e (JStr (ascii ''Error creating constraints'')),
              kg_loading := False \<rparr>
   \<and> fst (clearData_settle (Rejected e) o1 kg)
        = kg\<lparr> kg_error := detail_or e (JStr (ascii ''Error clearing data'')),
              kg_loading := False \<rparr>
   \<and> Dashboard_handleResetDatabase_settle (Rejected e) = [ToastError ''Failed to reset database: '']
   \<and> Statistics_handleResetDatabase_settle (Rejected e) = [ToastError ''Failed to reset database: '']
   \<and> ar_result (fst (AgenticRAG_handleSubmit (ar\<lparr> ar_question := q \<rparr>)))
        = (if blank q then ar_result ar else JNull)
   \<and> ar_result (fst (AgenticRAG_settle (Rejected e) ar)) = JNull"
  by (simp add: handler_defs)

text \<open>
  C2 as stated fails on the Agentic RAG page. The page shows an answer; a new question is
  submitted and its request is rejected: the answer is gone. The same happens when a
  rejection arrives while an answer is on display.
\<close>

theorem agentic_error_clears_result:
  "ar_result (fst (AgenticRAG_settle (Rejected (JObj [(''message'', JStr (ascii ''Network Error''))]))
       (fst (AgenticRAG_handleSubmit
          \<lparr> ar_question = ascii ''Who directed The Matrix?'', ar_isLoading = False,
            ar_result = JObj [(''answer'', JStr (ascii ''The Wachowskis''))],
            ar_availableTools = JArr [] \<rparr>)))) = JNull
   \<and> ar_result (fst (AgenticRAG_settle (Rejected (JObj [(''message'', JStr (ascii ''Network Error''))]))
          \<lparr> ar_question = ascii ''Who directed The Matrix?'', ar_isLoading = True,
            ar_result = JObj [(''answer'', JStr (ascii ''The Wachowskis''))],
            ar_availableTools = JArr [] \<rparr>)) = JNull
   \<and> JObj [(''answer'', JStr (ascii ''The Wachowskis''))] \<noteq> JNull"
  by (simp add: handler_defs)

subsection \<open>Retries\<close>

lemma fetch_with_retry_length: "length (fetch_with_retry r c os) \<le> Suc r"
  by (induction r c os rule: fetch_with_retry.induct) simp_all

lemma fetch_with_retry_zero: "fetch_with_retry 0 c os = [c]"
  by (induction "0::nat" c os rule: fetch_with_retry.induct) simp_all

text \<open>
  What each query asks of the library. The schema query turns retries off: one fetch is
  one request. The tools query asks for three: one fetch is at most four requests. The
  other five give no \<open>retry\<close>, so the library's default count bounds them.
\<close>

lemma query_retry_counts:
  "fetch_query d Text2Cypher_schema_query os = [text2cypherAPI_getSchema]
   \<and> retry_count d (options AgenticRAG_tools_query) = 3
   \<and> length (fetch_query d AgenticRAG_tools_query os) \<le> 4
   \<and> list_all (\<lambda>q. retry (options q) = None \<and> length (fetch_query d q os) \<le> Suc d)
        [Dashboard_stats_query, Dashboard_health_query, Statistics_stats_query,
         ContractExtraction_contracts_query, EntityExtraction_graph_query]"
  using fetch_with_retry_length [of 3 agenticRAGAPI_getTools os]
        fetch_with_retry_length [of d statsAPI_getStats os]
        fetch_with_retry_length [of d statsAPI_getHealth os]
        fetch_with_retry_length [of d contractAPI_list os]
        fetch_with_retry_length [of d entityAPI_getGraph os]
  by (simp add: query_defs fetch_with_retry_zero)

lemma queries_with_retry_option:
  "map queryKey (filter (\<lambda>q. retry (options q) \<noteq> None) page_queries)
     = [''text2cypher-schema'', ''agentic-rag-tools'']"
  by (simp add: page_queries_def query_defs)

text \<open>
  No error callback and no \<open>catch\<close> block of a page sends a request; a loader that
  fails has sent its one request and logs.
\<close>

lemma failure_issues_no_request:
  "requests (snd (RAGChat_onError now e chat)) = []
   \<and> requests (snd (GraphRAG_global_onError e gr)) = []
   \<and> requests (snd (GraphRAG_local_onError e gr)) = []
   \<and> requests (snd (GraphRAG_communities_onError e gr)) = []
   \<and> requests (snd (EntityExtraction_onError e ee)) = []
   \<and> requests (snd (ContractExtraction_onError e ce)) = []
   \<and> requests (snd (AgenticRAG_settle (Rejected e) ar)) = []
   \<and> requests (snd (PDFProcessor_upload_onError e pp)) = []
   \<and> requests (snd (PDFProcessor_download_onError e pp)) = []
   \<and> requests (snd (handleGenerateCypher_settle (Rejected e) tc)) = []
   \<and> requests (snd (handleExecuteQuery_settle (Rejected e) tc)) = []
   \<and> requests (snd (Text2Cypher_loadMovies_onError e tc)) = []
   \<and> requests (snd (Text2Cypher_reset_onError e tc)) = []
   \<and> requests (snd (extractContractInfo_settle (Rejected e) kg)) = []
   \<and> requests (snd (importToGraph_settle (Rejected e) o1 o2 kg)) = []
   \<and> requests (snd (createConstraints_settle (Rejected e) kg)) = []
   \<and> requests (snd (clearData_settle (Rejected e) o1 kg)) = []
   \<and> requests (snd (queryContracts_settle (Rejected e) kg)) = []
   \<and> requests (Dashboard_handleResetDatabase_settle (Rejected e)) = []
   \<and> requests (Statistics_handleResetDatabase_settle (Rejected e)) = []
   \<and> requests (snd (loadSampleContract (Rejected e) kg)) = [Http knowledgeGraphAPI_getSampleContract]
   \<and> requests (snd (loadStatistics (Rejected e) kg)) = [Http knowledgeGraphAPI_getStatistics]
   \<and> requests (snd (loadGraphData (Rejected e) kg)) = [Http knowledgeGraphAPI_getGraphData]"
  by (simp add: handler_defs requests_def)

text \<open>
  C3, as the code has it. The pages' own failure paths send nothing again, and the schema
  query disables retries; the Agentic RAG tools query is configured with \<open>retry: 3\<close>, so
  a failing fetch of the tools is sent up to four times; the queries without a \<open>retry\<close>
  option are sent at most once more than the library's default count \<open>d\<close>.
\<close>

theorem retry_policy:
  "(requests (snd (RAGChat_onError now e chat)) = []
   \<and> requests (snd (GraphRAG_global_onError e gr)) = []
   \<and> requests (snd (GraphRAG_local_onError e gr)) = []
   \<and> requests (snd (GraphRAG_communities_onError e gr)) = []
   \<and> requests (snd (EntityExtraction_onError e ee)) = []
   \<and> requests (snd (ContractExtraction_onError e ce)) = []
   \<and> requests (snd (AgenticRAG_settle (Rejected e) ar)) = []
   \<and> requests (snd (PDFProcessor_upload_onError e pp)) = []
   \<and> requests (snd (PDFProcessor_download_onError e pp)) = []
   \<and> requests (snd (handleGenerateCypher_settle (Rejected e) tc)) = []
   \<and> requests (snd (handleExecuteQuery_settle (Rejected e) tc)) = []
   \<and> requests (snd (Text2Cypher_loadMovies_onError e tc)) = []
   \<and> requests (snd (Text2Cypher_reset_onError e tc)) = []
   \<and> requests (snd (extractContractInfo_settle (Rejected e) kg)) = []
   \<and> requests (snd (importToGraph_settle (Rejected e) o1 o2 kg)) = []
   \<and> requests (snd (createConstraints_settle (Rejected e) kg)) = []
   \<and> requests (snd (clearData_settle (Rejected e) o1 kg)) = []
   \<and> requests (snd (queryContracts_settle (Rejected e) kg)) = []
   \<and> requests (Dashboard_handleResetDatabase_settle (Rejected e)) = []
   \<and> requests (Statistics_handleResetDatabase_settle (Rejected e)) = []
   \<and> requests (snd (loadSampleContract (Rejected e) kg)) = [Http knowledgeGraphAPI_getSampleContract]
   \<and> requests (snd (loadStatistics (Rejected e) kg)) = [Http knowledgeGraphAPI_getStatistics]
   \<and> requests (snd (loadGraphData (Rejected e) kg)) = [Http knowledgeGraphAPI_getGraphData])
   \<and> (fetch_query d Text2Cypher_schema_query os = [text2cypherAPI_getSchema]
   \<and> retry_count d (options AgenticRAG_tools_query) = 3
   \<and> length (fetch_query d AgenticRAG_tools_query os) \<le> 4
   \<and> list_all (\<lambda>q. retry (options q) = None \<and> length (fetch_query d q os) \<le> Suc d)
        [Dashboard_stats_query, Dashboard_health_query, Statistics_stats_query,
         ContractExtraction_contracts_query, EntityExtraction_graph_query])"
  by (rule conjI [OF failure_issues_no_request query_retry_counts])

text \<open>
  C3 as stated fails on the tools query: with every attempt rejected, one fetch sends the
  request \<open>GET /api/agentic-rag/tools\<close> four times, whatever the library's default.
\<close>

theorem tools_query_retried:
  "fetch_query 0 AgenticRAG_tools_query
     [Rejected (JObj [(''message'', JStr (ascii ''Network Error''))]),
      Rejected (JObj [(''message'', JStr (ascii ''Network Error''))]),
      Rejected (JObj [(''message'', JStr (ascii ''Network Error''))]),
      Rejected (JObj [(''message'', JStr (ascii ''Network Error''))])]
   = [agenticRAGAPI_getTools, agenticRAGAPI_getTools, agenticRAGAPI_getTools, agenticRAGAPI_getTools]"
  by (simp add: query_defs numeral_3_eq_3)

subsection \<open>Destructive actions\<close>

lemma confirm_gates_request:
  "Dashboard_handleResetDatabase_start confirmed = (if confirmed then [Http databaseAPI_reset] else [])
   \<and> Statistics_handleResetDatabase_start confirmed = (if confirmed then [Http databaseAPI_reset] else [])
   \<and> Text2Cypher_handleResetDatabase confirmed tc
        = (tc, if confirmed then [Http databaseAPI_reset] else [])
   \<and> snd (clearData_start confirmed kg) = (if confirmed then [Http knowledgeGraphAPI_clear] else [])
   \<and> clearData_start False kg = (kg, [])
   \<and> (Http databaseAPI_reset \<in> set (Dashboard_handleResetDatabase_start confirmed)) = confirmed
   \<and> (Http databaseAPI_reset \<in> set (Statistics_handleResetDatabase_start confirmed)) = confirmed
   \<and> (Http databaseAPI_reset \<in> set (snd (Text2Cypher_handleResetDatabase confirmed tc))) = confirmed
   \<and> (Http knowledgeGraphAPI_clear \<in> set (snd (clearData_start confirmed kg))) = confirmed"
  by (simp add: handler_defs)

text \<open>No other handler of these pages, and no continuation, sends the destructive request.\<close>

lemma destructive_request_elsewhere:
  "Http databaseAPI_reset \<notin> set (snd (handleGenerateCypher_start tc))
   \<and> Http databaseAPI_reset \<notin> set (snd (handleGenerateCypher_settle out tc))
   \<and> Http databaseAPI_reset \<notin> set (snd (handleExecuteQuery_settle out tc))
   \<and> Http databaseAPI_reset \<notin> set (snd (Text2Cypher_handleLoadMoviesDataset confirmed tc))
   \<and> Http databaseAPI_reset \<notin> set (snd (Text2Cypher_loadMovies_onSuccess r tc))
   \<and> Http databaseAPI_reset \<notin> set (snd (Text2Cypher_loadMovies_onError e tc))
   \<and> Http databaseAPI_reset \<notin> set (snd (Text2Cypher_reset_onSuccess r tc))
   \<and> Http databaseAPI_reset \<notin> set (snd (Text2Cypher_reset_onError e tc))
   \<and> Http databaseAPI_reset \<notin> set (Dashboard_handleResetDatabase_settle out)
   \<and> Http databaseAPI_reset \<notin> set (Statistics_handleResetDatabase_settle out)
   \<and> Http knowledgeGraphAPI_clear \<notin> set (snd (loadSampleContract out kg))
   \<and> Http knowledgeGraphAPI_clear \<notin> set (snd (loadStatistics out kg))
   \<and> Http knowledgeGraphAPI_clear \<notin> set (snd (loadGraphData out kg))
   \<and> Http knowledgeGraphAPI_clear \<notin> set (snd (extractContractInfo_settle out kg))
   \<and> Http knowledgeGraphAPI_clear \<notin> set (snd (importToGraph_settle out o1 o2 kg))
   \<and> Http knowledgeGraphAPI_clear \<notin> set (snd (createConstraints_start kg))
   \<and> Http knowledgeGraphAPI_clear \<notin> set (snd (createConstraints_settle out kg))
   \<and> Http knowledgeGraphAPI_clear \<notin> set (snd (clearData_settle out o1 kg))
   \<and> Http knowledgeGraphAPI_clear \<notin> set (snd (queryContracts_start kg))
   \<and> Http knowledgeGraphAPI_clear \<notin> set (snd (queryContracts_settle out kg))
   \<and> (case handleExecuteQuery_start tc of Inl x \<Rightarrow> True
       | Inr (tc', es) \<Rightarrow> Http databaseAPI_reset \<notin> set es)
   \<and> (case extractContractInfo_start kg of Inl x \<Rightarrow> True
       | Inr (kg', es) \<Rightarrow> Http knowledgeGraphAPI_clear \<notin> set es)
   \<and> (case importToGraph_start kg of Inl x \<Rightarrow> True
       | Inr (kg', es) \<Rightarrow> Http knowledgeGraphAPI_clear \<notin> set es)"
  by (simp add: handler_defs api_defs Let_def split: outcome.split prod.split sum.split)

text \<open>
  C5. On the dashboard, statistics and Text2Cypher pages the reset handler sends
  \<open>POST /api/database/reset\<close> exactly when \<open>window.confirm\<close> returned true, and on the
  knowledge-graph page \<open>clearData\<close> sends \<open>POST /api/knowledge-graph/clear\<close> exactly
  then; a declined confirmation sends nothing and leaves the page state as it was. No
  other handler of these pages sends either request.
\<close>

theorem confirm_gates_destructive_request:
  "(Dashboard_handleResetDatabase_start confirmed = (if confirmed then [Http databaseAPI_reset] else [])
   \<and> Statistics_handleResetDatabase_start confirmed = (if confirmed then [Http databaseAPI_reset] else [])
   \<and> Text2Cypher_handleResetDatabase confirmed tc
        = (tc, if confirmed then [Http databaseAPI_reset] else [])
   \<and> snd (clearData_start confirmed kg) = (if confirmed then [Http knowledgeGraphAPI_clear] else [])
   \<and> clearData_start False kg = (kg, [])
   \<and> (Http databaseAPI_reset \<in> set (Dashboard_handleResetDatabase_start confirmed)) = confirmed
   \<and> (Http databaseAPI_reset \<in> set (Statistics_handleResetDatabase_start confirmed)) = confirmed
   \<and> (Http databaseAPI_reset \<in> set (snd (Text2Cypher_handleResetDatabase confirmed tc))) = confirmed
   \<and> (Http knowledgeGraphAPI_clear \<in> set (snd (clearData_start confirmed kg))) = confirmed)
   \<and> (Http databaseAPI_reset \<notin> set (snd (handleGenerateCypher_start tc))
   \<and> Http databaseAPI_reset \<notin> set (snd (handleGenerateCypher_settle out tc))
   \<and> Http databaseAPI_reset \<notin> set (snd (handleExecuteQuery_settle out tc))
   \<and> Http databaseAPI_reset \<notin> set (snd (Text2Cypher_handleLoadMoviesDataset confirmed tc))
   \<and> Http databaseAPI_reset \<notin> set (snd (Text2Cypher_loadMovies_onSuccess r tc))
   \<and> Http databaseAPI_reset \<notin> set (snd (Text2Cypher_loadMovies_onError e tc))
   \<and> Http databaseAPI_reset \<notin> set (snd (Text2Cypher_reset_onSuccess r tc))
   \<and> Http databaseAPI_reset \<notin> set (snd (Text2Cypher_reset_onError e tc))
   \<and> Http databaseAPI_reset \<notin> set (Dashboard_handleResetDatabase_settle out)
   \<and> Http databaseAPI_reset \<notin> set (Statistics_handleResetDatabase_settle out)
   \<and> Http knowledgeGraphAPI_clear \<notin> set (snd (loadSampleContract out kg))
   \<and> Http knowledgeGraphAPI_clear \<notin> set (snd (loadStatistics out kg))
   \<and> Http knowledgeGraphAPI_clear \<notin> set (snd (loadGraphData out kg))
   \<and> Http knowledgeGraphAPI_clear \<notin> set (snd (extractContractInfo_settle out kg))
   \<and> Http knowledgeGraphAPI_clear \<notin> set (snd (importToGraph_settle out o1 o2 kg))
   \<and> Http knowledgeGraphAPI_clear \<notin> set (snd (createConstraints_start kg))
   \<and> Http knowledgeGraphAPI_clear \<notin> set (snd (createConstraints_settle out kg))
   \<and> Http knowledgeGraphAPI_clear \<notin> set (snd (clearData_settle out o1 kg))
   \<and> Http knowledgeGraphAPI_clear \<notin> set (snd (queryContracts_start kg))
   \<and> Http knowledgeGraphAPI_clear \<notin> set (snd (queryContracts_settle out kg))
   \<and> (case handleExecuteQuery_start tc of Inl x \<Rightarrow> True
       | Inr (tc', es) \<Rightarrow> Http databaseAPI_reset \<notin> set es)
   \<and> (case extractContractInfo_start kg of Inl x \<Rightarrow> True
       | Inr (kg', es) \<Rightarrow> Http knowledgeGraphAPI_clear \<notin> set es)
   \<and> (case importToGraph_start kg of Inl x \<Rightarrow> True
       | Inr (kg', es) \<Rightarrow> Http knowledgeGraphAPI_clear \<notin> set es))"
  by (rule conjI [OF confirm_gates_request destructive_request_elsewhere])

subsection \<open>The chat round trip\<close>

lemma matrix_question_not_blank: "\<not> blank (ascii ''Who directed The Matrix?'')"
  by (simp add: js_string_defs)

text \<open>
  C6. With the question \<open>Who directed The Matrix?\<close> typed, the search type \<open>hybrid\<close>
  and no request in flight, submitting the chat form causes exactly one effect, the
  request \<open>POST /api/rag/query\<close> with the body
  \<open>{question: 'Who directed The Matrix?', search_type: 'hybrid'}\<close>. When it succeeds
  with a body (one that is not undefined or null), \<open>onSuccess\<close> appends one message, of
  type \<open>bot\<close>, whose content is the \<open>answer\<close> of the body as it came.
\<close>

theorem rag_round_trip:
  "snd (RAGChat_handleSubmit now
          (chat\<lparr> chat_input := ascii ''Who directed The Matrix?'',
                 chat_searchType := ascii ''hybrid'', chat_isLoading := False \<rparr>))
     = [Http \<lparr> http_method = POST, url = ''/api/rag/query'',
                data = JObj [(''question'', JStr (ascii ''Who directed The Matrix?'')),
                             (''search_type'', JStr (ascii ''hybrid''))],
                call_config = None \<rparr>]
   \<and> (\<not> nullish (response_data response) \<longrightarrow>
        (\<exists>chat' m.
            RAGChat_onSuccess now' response variables
              (fst (RAGChat_handleSubmit now
                 (chat\<lparr> chat_input := ascii ''Who directed The Matrix?'',
                        chat_searchType := ascii ''hybrid'', chat_isLoading := False \<rparr>)))
              = Inr chat'
          \<and> chat_messages chat' =
              chat_messages (fst (RAGChat_handleSubmit now
                 (chat\<lparr> chat_input := ascii ''Who directed The Matrix?'',
                        chat_searchType := ascii ''hybrid'', chat_isLoading := False \<rparr>))) @ [m]
          \<and> get_prop ''type'' m = JStr (ascii ''bot'')
          \<and> get_prop ''content'' m = get_prop ''answer'' (response_data response)))"
  using matrix_question_not_blank
  by (simp add: Let_def RAGChat_handleSubmit_def RAGChat_mutationFn_def ragAPI_query_def api_post_def
        default_param_def RAGChat_onSuccess_def ascii_def)

text \<open>
  The round trip on the page as it opens, the backend answering \<open>The Wachowskis\<close>: the
  request is the one above and the new message shows that answer.
\<close>

theorem rag_round_trip_witness:
  "snd (RAGChat_handleSubmit 1
          ((RAGChat_initial 0)\<lparr> chat_input := ascii ''Who directed The Matrix?'',
                 chat_searchType := ascii ''hybrid'', chat_isLoading := False \<rparr>))
     = [Http \<lparr> http_method = POST, url = ''/api/rag/query'',
                data = JObj [(''question'', JStr (ascii ''Who directed The Matrix?'')),
                             (''search_type'', JStr (ascii ''hybrid''))],
                call_config = None \<rparr>]
   \<and> (\<exists>chat' m.
          RAGChat_onSuccess 2
            (JObj [(''data'', JObj [(''answer'', JStr (ascii ''The Wachowskis''))])])
            (JObj [(''question'', JStr (ascii ''Who directed The Matrix?'')),
                   (''type'', JStr (ascii ''hybrid''))])
            (fst (RAGChat_handleSubmit 1
               ((RAGChat_initial 0)\<lparr> chat_input := ascii ''Who directed The Matrix?'',
                      chat_searchType := ascii ''hybrid'', chat_isLoading := False \<rparr>)))
            = Inr chat'
        \<and> chat_messages chat' =
            chat_messages (fst (RAGChat_handleSubmit 1
               ((RAGChat_initial 0)\<lparr> chat_input := ascii ''Who directed The Matrix?'',
                      chat_searchType := ascii ''hybrid'', chat_isLoading := False \<rparr>))) @ [m]
        \<and> get_prop ''type'' m = JStr (ascii ''bot'')
        \<and> get_prop ''content'' m = JStr (ascii ''The Wachowskis''))"
  using rag_round_trip [of 1 "RAGChat_initial 0"
          "JObj [(''data'', JObj [(''answer'', JStr (ascii ''The Wachowskis''))])]" 2
          "JObj [(''question'', JStr (ascii ''Who directed The Matrix?'')),
                 (''type'', JStr (ascii ''hybrid''))]"]
  by (simp add: response_data_def)

subsection \<open>Settling out of order\<close>

text \<open>
  A success callback stores the body it is given and looks at nothing else, so after any
  run of successful settlements the page shows the last one.
\<close>

lemma graph_settle_sequence:
  "rs \<noteq> [] \<Longrightarrow>
   gr_result (foldl (\<lambda>s r. fst (GraphRAG_global_onSuccess r s)) gr rs) = response_data (last rs)"
  by (induction rs rule: rev_induct) (simp_all add: GraphRAG_global_onSuccess_def)

text \<open>
  The chat handler refuses a submission while a request is in flight, so on that page a
  second request cannot be outstanding together with the first.
\<close>

lemma chat_second_submit_dropped:
  "\<not> blank q1 \<Longrightarrow> \<not> chat_isLoading chat \<Longrightarrow>
   snd (RAGChat_handleSubmit now'
          ((fst (RAGChat_handleSubmit now (chat\<lparr> chat_input := q1 \<rparr>)))\<lparr> chat_input := q2 \<rparr>)) = []"
  by (simp add: RAGChat_handleSubmit_def Let_def)



subsection \<open>Blank input\<close>

text \<open>
  C9, as the code has it. A handler that guards a text sends no request when that text is
  blank (empty or white space only): the chat, Graph RAG, entity, contract, Agentic RAG
  and PDF-URL forms, the Text2Cypher generator, and the knowledge-graph extraction,
  import and query. The Text2Cypher execute handler guards the generated Cypher text, not
  the question: it sends nothing when that text is blank.
\<close>

theorem blank_input_no_request:
  assumes "blank s"
  shows "RAGChat_handleSubmit now (chat\<lparr> chat_input := s \<rparr>) = (chat\<lparr> chat_input := s \<rparr>, [])
    \<and> GraphRAG_handleSubmit (gr\<lparr> gr_question := s \<rparr>) = (gr\<lparr> gr_question := s \<rparr>, [])
    \<and> EntityExtraction_handleSubmit (ee\<lparr> ee_text := s \<rparr>) = (ee\<lparr> ee_text := s \<rparr>, [])
    \<and> ContractExtraction_handleSubmit (ce\<lparr> ce_contractText := s \<rparr>) = (ce\<lparr> ce_contractText := s \<rparr>, [])
    \<and> AgenticRAG_handleSubmit (ar\<lparr> ar_question := s \<rparr>)
          = (ar\<lparr> ar_question := s \<rparr>, [ToastError ''Please enter a question''])
    \<and> PDFProcessor_handleUrlSubmit (pp\<lparr> pp_url := s \<rparr>) = (pp\<lparr> pp_url := s \<rparr>, [])
    \<and> handleGenerateCypher_start (tc\<lparr> tc_question := s \<rparr>)
          = (tc\<lparr> tc_question := s \<rparr>, [ToastError ''Please enter a question''])
    \<and> extractContractInfo_start (kg\<lparr> kg_contractText := JStr s \<rparr>)
          = Inr (kg\<lparr> kg_contractText := JStr s, kg_error := JStr (ascii ''Please enter contract text'') \<rparr>, [])
    \<and> importToGraph_start (kg\<lparr> kg_contractText := JStr s \<rparr>)
          = Inr (kg\<lparr> kg_contractText := JStr s, kg_error := JStr (ascii ''Please enter contract text'') \<rparr>, [])
    \<and> queryContracts_start (kg\<lparr> kg_query := s \<rparr>)
          = (kg\<lparr> kg_query := s, kg_error := JStr (ascii ''Please enter a question'') \<rparr>, [])
    \<and> handleExecuteQuery_start (tc\<lparr> tc_cypherQuery := JStr s \<rparr>)
          = Inr (tc\<lparr> tc_cypherQuery := JStr s \<rparr>, [ToastError ''Please generate a Cypher query first''])"
  using assms by (simp add: handler_defs)

text \<open>The guards at a text of two spaces and a line break, on the Graph RAG page among the others.\<close>

theorem blank_input_no_request_witness:
  "blank (ascii ''  '' @ [0x0A])
   \<and> GraphRAG_handleSubmit \<lparr> gr_question = ascii ''  '' @ [0x0A], gr_searchType = ascii ''global'',
                              gr_result = JNull \<rparr>
       = (\<lparr> gr_question = ascii ''  '' @ [0x0A], gr_searchType = ascii ''global'', gr_result = JNull \<rparr>, [])
   \<and> EntityExtraction_handleSubmit (EntityExtraction_initial\<lparr> ee_text := ascii ''  '' @ [0x0A] \<rparr>)
       = (EntityExtraction_initial\<lparr> ee_text := ascii ''  '' @ [0x0A] \<rparr>, [])"
proof -
  have b: "blank (ascii ''  '' @ [0x0A])"
    by (simp add: js_string_defs)
  show ?thesis
    using b
      blank_input_no_request [OF b, where
        gr = "\<lparr> gr_question = [], gr_searchType = ascii ''global'', gr_result = JNull \<rparr>"
        and ee = EntityExtraction_initial]
    by simp
qed

text \<open>
  C9 as stated fails on the Text2Cypher page. A query has been generated and the question
  box has been emptied; the execute handler sends \<open>POST /api/text2cypher/query\<close> with
  the empty question.
\<close>

theorem execute_sends_blank_question:
  "blank []
   \<and> handleExecuteQuery_start
       \<lparr> tc_question = [], tc_terminology = [], tc_examples = [],
         tc_cypherQuery = JStr (ascii ''MATCH (n) RETURN n''), tc_queryResults = JNull,
         tc_isGenerating = False, tc_isExecuting = False \<rparr>
     = Inr (\<lparr> tc_question = [], tc_terminology = [], tc_examples = [],
             tc_cypherQuery = JStr (ascii ''MATCH (n) RETURN n''), tc_queryResults = JNull,
             tc_isGenerating = False, tc_isExecuting = True \<rparr>,
            [Http \<lparr> http_method = POST, url = ''/api/text2cypher/query'',
                     data = JObj [(''question'', JStr []), (''terminology'', JStr []),
                                  (''examples'', JStr [])],
                     call_config = None \<rparr>])"
  by (simp add: handler_defs js_string_defs text2cypherAPI_query_def api_post_def default_param_def)

subsection \<open>Selecting entity types\<close>

text \<open>
  C10. Toggling a type \<open>t\<close> in the selection \<open>S\<close> removes it when it is selected and
  appends it otherwise; the other elements keep their order; membership of \<open>t\<close> flips;
  and toggling twice gives back the same set of selected types. As an array, the second
  toggle appends: a type that was selected ends up last, a type that was not selected
  leaves the array as it was.
\<close>

theorem toggle_involution:
  "(t \<in> set S \<longrightarrow> handleEntityTypeChange t S = filter (\<lambda>x. x \<noteq> t) S)
   \<and> (t \<notin> set S \<longrightarrow> handleEntityTypeChange t S = S @ [t])
   \<and> filter (\<lambda>x. x \<noteq> t) (handleEntityTypeChange t S) = filter (\<lambda>x. x \<noteq> t) S
   \<and> (t \<in> set (handleEntityTypeChange t S) \<longleftrightarrow> t \<notin> set S)
   \<and> set (handleEntityTypeChange t (handleEntityTypeChange t S)) = set S
   \<and> (t \<in> set S \<longrightarrow>
        handleEntityTypeChange t (handleEntityTypeChange t S) = filter (\<lambda>x. x \<noteq> t) S @ [t])
   \<and> (t \<notin> set S \<longrightarrow> handleEntityTypeChange t (handleEntityTypeChange t S) = S)"
proof -
  have keep: "filter (\<lambda>x. x \<noteq> t) S = S" if "t \<notin> set S"
    using that by (induction S) auto
  show ?thesis
    by (auto simp: handleEntityTypeChange_def keep)
qed

text \<open>Unchecking \<open>PERSON\<close> in \<open>[PERSON, EVENT]\<close> and checking it again.\<close>

theorem toggle_involution_witness:
  "handleEntityTypeChange (ascii ''PERSON'') [ascii ''PERSON'', ascii ''EVENT''] = [ascii ''EVENT'']
   \<and> handleEntityTypeChange (ascii ''PERSON'') [ascii ''EVENT''] = [ascii ''EVENT'', ascii ''PERSON'']
   \<and> set (handleEntityTypeChange (ascii ''PERSON'')
           (handleEntityTypeChange (ascii ''PERSON'') [ascii ''PERSON'', ascii ''EVENT'']))
       = set [ascii ''PERSON'', ascii ''EVENT'']"
  using toggle_involution [of "ascii ''PERSON''" "[ascii ''PERSON'', ascii ''EVENT'']"]
        toggle_involution [of "ascii ''PERSON''" "[ascii ''EVENT'']"]
  by (auto simp: ascii_def)

end
